theory Spec2Isabelle
  imports Complex_Main "HOL-Library.AList"
begin

section \<open>Data model of datachecker.py\<close>

text \<open>
  The measurement store is an SQLite file with three tables,
  \<^verbatim>\<open>detector(id, name)\<close>, \<^verbatim>\<open>current(det_id, value, time)\<close> and
  \<^verbatim>\<open>voltage(det_id, value, time)\<close>. A table is the list of its rows in the order the
  store hands them out for a \<^verbatim>\<open>SELECT\<close> that has no \<^verbatim>\<open>ORDER BY\<close>. A pandas
  DataFrame with the columns \<^verbatim>\<open>det_id, value, time\<close> is the list of its rows; the type
  parameter is the type of the time column (an integer as stored, a timestamp after
  \<^verbatim>\<open>pd.to_datetime\<close>). The column \<^verbatim>\<open>value\<close> is the field \<open>val\<close>.
\<close>

datatype error = ValueError | OutOfBoundsDatetime | AttributeError

record 't row =
  det_id :: int
  val :: real
  time :: 't

type_synonym 't frame = "'t row list"

text \<open>A pandas timestamp: nanoseconds since the epoch, or the missing value \<^verbatim>\<open>NaT\<close>.\<close>

datatype timestamp = NaT | Timestamp int

type_synonym dict = "(int \<times> string) list"

record store =
  detector :: "(int \<times> string) list"
  current :: "int frame"
  voltage :: "int frame"

text \<open>
  The statements \<^verbatim>\<open>load_measurements\<close> sends over its connection. The two measurement
  queries carry the identifiers that the source interpolates into
  \<^verbatim>\<open>WHERE det_id IN (...)\<close>.
\<close>

datatype table = Current | Voltage

datatype stmt = SelectDetector | SelectMeasurements table "int list"

record conn =
  db :: store
  executed :: "stmt list"

section \<open>Python and pandas primitives\<close>

text \<open>\<^verbatim>\<open>str(i)\<close> for a Python integer: decimal digits, a minus sign when negative.\<close>

fun digits :: "nat \<Rightarrow> string" where
  "digits n = (if n < 10 then [''0123456789'' ! n]
               else digits (n div 10) @ [''0123456789'' ! (n mod 10)])"

declare digits.simps [simp del]

definition str :: "int \<Rightarrow> string" where
  "str i = (if i < 0 then CHR ''-'' # digits (nat (- i)) else digits (nat i))"

text \<open>\<^verbatim>\<open>sep.join(parts)\<close>.\<close>

fun join :: "string \<Rightarrow> string list \<Rightarrow> string" where
  "join sep [] = []"
| "join sep [p] = p"
| "join sep (p # q # ps) = p @ sep @ join sep (q # ps)"

text \<open>
  \<^verbatim>\<open>dict(rows)\<close> for a list of pairs: a later pair with a key already present replaces
  the value and leaves the key where it was first inserted.
\<close>

definition dict_of :: "(int \<times> string) list \<Rightarrow> dict" where
  "dict_of rows = foldl (\<lambda>d (k, v). AList.update k v d) [] rows"

definition keys :: "dict \<Rightarrow> int list" where
  "keys d = map fst d"

text \<open>
  \<^verbatim>\<open>d.get(k, default)\<close> returns a stored name or the default, here an identifier;
  an f-string renders either with \<^verbatim>\<open>format\<close>.
\<close>

datatype pyval = PyStr string | PyInt int

definition dict_get :: "dict \<Rightarrow> int \<Rightarrow> pyval \<Rightarrow> pyval" where
  "dict_get d k dflt = (case map_of d k of Some v \<Rightarrow> PyStr v | None \<Rightarrow> dflt)"

fun format :: "pyval \<Rightarrow> string" where
  "format (PyStr s) = s"
| "format (PyInt i) = str i"

text \<open>
  \<^verbatim>\<open>pd.to_datetime(col, unit="s")\<close> on a column of 64-bit integers: each entry is
  read as seconds since the epoch and stored as nanoseconds in a signed 64-bit integer.
  The smallest 64-bit integer is the missing-value marker and becomes \<^verbatim>\<open>NaT\<close>; an
  entry whose nanosecond count does not fit raises \<^verbatim>\<open>OutOfBoundsDatetime\<close> for the
  whole column.
\<close>

definition to_datetime_s :: "int \<Rightarrow> error + timestamp" where
  "to_datetime_s t =
     (if t = - (2 ^ 63) then Inr NaT
      else if - (2 ^ 63) < t * 1000000000 \<and> t * 1000000000 < 2 ^ 63
        then Inr (Timestamp (t * 1000000000))
      else Inl OutOfBoundsDatetime)"

fun to_datetime :: "int frame \<Rightarrow> error + timestamp frame" where
  "to_datetime [] = Inr []"
| "to_datetime (r # rs) =
     (case to_datetime_s (time r) of
        Inl e \<Rightarrow> Inl e
      | Inr ts \<Rightarrow>
          (case to_datetime rs of
             Inl e \<Rightarrow> Inl e
           | Inr rs' \<Rightarrow> Inr (\<lparr>det_id = det_id r, val = val r, time = ts\<rparr> # rs')))"

section \<open>load_measurements\<close>

definition connect :: "store \<Rightarrow> conn" where
  "connect s = \<lparr>db = s, executed = []\<rparr>"

text \<open>\<^verbatim>\<open>conn.execute(text("SELECT id, name FROM detector")).fetchall()\<close>\<close>

definition fetch_detector :: "conn \<Rightarrow> (int \<times> string) list \<times> conn" where
  "fetch_detector c = (detector (db c), c\<lparr>executed := executed c @ [SelectDetector]\<rparr>)"

definition table_rows :: "table \<Rightarrow> store \<Rightarrow> int frame" where
  "table_rows t s = (case t of Current \<Rightarrow> current s | Voltage \<Rightarrow> voltage s)"

text \<open>
  \<^verbatim>\<open>pd.read_sql(text("SELECT det_id, value, time FROM t WHERE det_id IN (ids)"), conn)\<close>.
  SQLite accepts an empty list on the right of \<^verbatim>\<open>IN\<close>; no row satisfies it.
\<close>

definition read_sql :: "table \<Rightarrow> int list \<Rightarrow> conn \<Rightarrow> int frame \<times> conn" where
  "read_sql t ids c =
     (filter (\<lambda>r. det_id r \<in> set ids) (table_rows t (db c)),
      c\<lparr>executed := executed c @ [SelectMeasurements t ids]\<rparr>)"

text \<open>The text the source interpolates between the parentheses of \<^verbatim>\<open>IN (...)\<close>.\<close>

definition in_list_text :: "int list \<Rightarrow> string" where
  "in_list_text ids = join '','' (map str ids)"

text \<open>
  The result pairs the statements executed on the connection with what the call returns:
  the error raised, or \<^verbatim>\<open>(current, voltage, det_map)\<close>.
\<close>

definition load_measurements ::
  "store \<Rightarrow> stmt list \<times> (error + timestamp frame \<times> timestamp frame \<times> dict)" where
  "load_measurements s =
     (let (rows, c1) = fetch_detector (connect s);
          det_map = dict_of rows;
          (cur, c2) = read_sql Current (keys det_map) c1;
          (vol, c3) = read_sql Voltage (keys det_map) c2
      in (executed c3,
          case to_datetime cur of
            Inl e \<Rightarrow> Inl e
          | Inr cur' \<Rightarrow>
              (case to_datetime vol of
                 Inl e \<Rightarrow> Inl e
               | Inr vol' \<Rightarrow> Inr (cur', vol', det_map))))"

section \<open>plot_all\<close>

text \<open>
  \<^verbatim>\<open>df.groupby("det_id")\<close>, iterated: one pair per distinct identifier, in ascending
  order of the identifier, each with the rows of that identifier in the order of the frame.
\<close>

definition groupby_det_id :: "'t frame \<Rightarrow> (int \<times> 't frame) list" where
  "groupby_det_id df =
     map (\<lambda>k. (k, filter (\<lambda>r. det_id r = k) df)) (sort (remdups (map det_id df)))"

text \<open>
  Python's slice \<^verbatim>\<open>[::step]\<close>. \<open>every m\<close> keeps an element and skips the next \<open>m\<close>;
  a negative step walks from the last element towards the first, a step of zero raises.
\<close>

fun every :: "nat \<Rightarrow> 'a list \<Rightarrow> 'a list" where
  "every m [] = []"
| "every m (a # as) = a # every m (drop m as)"

definition iloc_step :: "int \<Rightarrow> 'a list \<Rightarrow> error + 'a list" where
  "iloc_step step df =
     (if step = 0 then Inl ValueError
      else if 0 < step then Inr (every (nat step - 1) df)
      else Inr (every (nat (- step) - 1) (rev df)))"

record trace =
  trace_x :: "timestamp list"
  trace_y :: "real list"
  trace_mode :: string
  trace_name :: string

text \<open>A plotly figure: the subplot grid, the traces with the cell each was added to, the layout.\<close>

record figure =
  grid_rows :: nat
  grid_cols :: nat
  shared_xaxes :: bool
  vertical_spacing :: real
  subplot_titles :: "string list"
  fig_data :: "(trace \<times> nat \<times> nat) list"
  layout_height :: "nat option"
  title_text :: "string option"
  xaxis_title :: "string option"

definition make_subplots :: "nat \<Rightarrow> nat \<Rightarrow> bool \<Rightarrow> real \<Rightarrow> string list \<Rightarrow> figure" where
  "make_subplots r c sh vs titles =
     \<lparr>grid_rows = r, grid_cols = c, shared_xaxes = sh, vertical_spacing = vs,
      subplot_titles = titles, fig_data = [], layout_height = None,
      title_text = None, xaxis_title = None\<rparr>"

definition add_trace :: "trace \<Rightarrow> nat \<Rightarrow> nat \<Rightarrow> figure \<Rightarrow> figure" where
  "add_trace t r c fig = fig\<lparr>fig_data := fig_data fig @ [(t, r, c)]\<rparr>"

definition update_layout :: "nat \<Rightarrow> string \<Rightarrow> string \<Rightarrow> figure \<Rightarrow> figure" where
  "update_layout h t xt fig =
     fig\<lparr>layout_height := Some h, title_text := Some t, xaxis_title := Some xt\<rparr>"

text \<open>
  \<^verbatim>\<open>go.Scatter(x=df["time"], y=df["value"], mode="lines", name=f"{kind} {det_map.get(det_id, det_id)}")\<close>
\<close>

definition scatter :: "string \<Rightarrow> dict \<Rightarrow> int \<Rightarrow> timestamp frame \<Rightarrow> trace" where
  "scatter kind det_map k df =
     \<lparr>trace_x = map time df, trace_y = map val df, trace_mode = ''lines'',
      trace_name = kind @ '' '' @ format (dict_get det_map k (PyInt k))\<rparr>"

text \<open>
  The body of each of the two \<^verbatim>\<open>for det_id, df_orig in ....groupby("det_id")\<close> loops:
  the group is copied, sliced only under the guard \<^verbatim>\<open>downsample > 1\<close>, and added to
  the figure in row \<open>r\<close>, column 1.
\<close>

definition decimate :: "int \<Rightarrow> timestamp frame \<Rightarrow> error + timestamp frame" where
  "decimate downsample df_orig =
     (let df = df_orig
      in if 1 < downsample then iloc_step downsample df else Inr df)"

fun add_traces ::
  "string \<Rightarrow> nat \<Rightarrow> dict \<Rightarrow> int \<Rightarrow> (int \<times> timestamp frame) list \<Rightarrow> figure \<Rightarrow> error + figure" where
  "add_traces kind r det_map downsample [] fig = Inr fig"
| "add_traces kind r det_map downsample ((k, df_orig) # gs) fig =
     (case decimate downsample df_orig of
        Inl e \<Rightarrow> Inl e
      | Inr df \<Rightarrow>
          add_traces kind r det_map downsample gs
            (add_trace (scatter kind det_map k df) r 1 fig))"

text \<open>The result is the error raised or the figure handed to \<^verbatim>\<open>fig.show()\<close>.\<close>

definition plot_all ::
  "timestamp frame \<Rightarrow> timestamp frame \<Rightarrow> dict \<Rightarrow> int \<Rightarrow> error + figure" where
  "plot_all cur vol det_map downsample =
     (let fig = make_subplots 2 1 True (1 / 10) [''Current over Time'', ''Voltage over Time'']
      in case add_traces ''Current'' 1 det_map downsample (groupby_det_id cur) fig of
           Inl e \<Rightarrow> Inl e
         | Inr fig1 \<Rightarrow>
             (case add_traces ''Voltage'' 2 det_map downsample (groupby_det_id vol) fig1 of
                Inl e \<Rightarrow> Inl e
              | Inr fig2 \<Rightarrow>
                  Inr (update_layout 800 ''Current and Voltage Measurements'' ''Time'' fig2)))"

section \<open>plot_all over a store of objects\<close>

text \<open>
  Python passes references. To say what \<^verbatim>\<open>plot_all\<close> does to the objects of its caller,
  the same code is modelled over a store of objects: a reference is an index into the store,
  creating an object appends it, and the only in-place updates are those of
  \<^verbatim>\<open>fig.add_trace\<close> and \<^verbatim>\<open>fig.update_layout\<close> on the figure that
  \<^verbatim>\<open>make_subplots\<close> created. Iterating a \<^verbatim>\<open>groupby\<close>, \<^verbatim>\<open>df_orig.copy()\<close> and
  \<^verbatim>\<open>df.iloc[::downsample, :]\<close> each create a new frame object. A reference to an object
  of the wrong class raises \<^verbatim>\<open>AttributeError\<close>.
\<close>

datatype obj = Frame "timestamp frame" | Dict dict | Fig figure

type_synonym heap = "obj list"

definition alloc :: "obj \<Rightarrow> heap \<Rightarrow> nat \<times> heap" where
  "alloc ob h = (length h, h @ [ob])"

definition get_frame :: "nat \<Rightarrow> heap \<Rightarrow> error + timestamp frame" where
  "get_frame a h =
     (if a < length h then (case h ! a of Frame df \<Rightarrow> Inr df | _ \<Rightarrow> Inl AttributeError)
      else Inl AttributeError)"

definition get_dict :: "nat \<Rightarrow> heap \<Rightarrow> error + dict" where
  "get_dict a h =
     (if a < length h then (case h ! a of Dict d \<Rightarrow> Inr d | _ \<Rightarrow> Inl AttributeError)
      else Inl AttributeError)"

definition get_fig :: "nat \<Rightarrow> heap \<Rightarrow> error + figure" where
  "get_fig a h =
     (if a < length h then (case h ! a of Fig fig \<Rightarrow> Inr fig | _ \<Rightarrow> Inl AttributeError)
      else Inl AttributeError)"

text \<open>\<^verbatim>\<open>df_orig.copy()\<close>\<close>

definition copy_heap :: "nat \<Rightarrow> heap \<Rightarrow> error + nat \<times> heap" where
  "copy_heap a h =
     (case get_frame a h of Inl e \<Rightarrow> Inl e | Inr df \<Rightarrow> Inr (alloc (Frame df) h))"

text \<open>\<^verbatim>\<open>df.iloc[::step, :]\<close>\<close>

definition iloc_step_heap :: "int \<Rightarrow> nat \<Rightarrow> heap \<Rightarrow> error + nat \<times> heap" where
  "iloc_step_heap step a h =
     (case get_frame a h of
        Inl e \<Rightarrow> Inl e
      | Inr df \<Rightarrow>
          (case iloc_step step df of
             Inl e \<Rightarrow> Inl e
           | Inr df' \<Rightarrow> Inr (alloc (Frame df') h)))"

text \<open>\<^verbatim>\<open>fig.add_trace(go.Scatter(...), row=r, col=1)\<close>: reads the frame and the dictionary,
  updates the figure in place.\<close>

definition add_trace_heap ::
  "string \<Rightarrow> nat \<Rightarrow> int \<Rightarrow> nat \<Rightarrow> nat \<Rightarrow> nat \<Rightarrow> heap \<Rightarrow> error + heap" where
  "add_trace_heap kind r k df det_map fig h =
     (case get_frame df h of
        Inl e \<Rightarrow> Inl e
      | Inr fr \<Rightarrow>
          (case get_dict det_map h of
             Inl e \<Rightarrow> Inl e
           | Inr d \<Rightarrow>
               (case get_fig fig h of
                  Inl e \<Rightarrow> Inl e
                | Inr fg \<Rightarrow> Inr (h[fig := Fig (add_trace (scatter kind d k fr) r 1 fg)]))))"

text \<open>
  One pass through the body of a loop: \<open>g\<close> is the group the iteration yields for the
  identifier \<open>k\<close>; it becomes the new object \<^verbatim>\<open>df_orig\<close>.
\<close>

definition trace_group_heap ::
  "string \<Rightarrow> nat \<Rightarrow> nat \<Rightarrow> int \<Rightarrow> int \<Rightarrow> timestamp frame \<Rightarrow> nat \<Rightarrow> heap \<Rightarrow> error + heap" where
  "trace_group_heap kind r det_map downsample k g fig h =
     (let (df_orig, h1) = alloc (Frame g) h
      in case copy_heap df_orig h1 of
           Inl e \<Rightarrow> Inl e
         | Inr (df, h2) \<Rightarrow>
             (case (if 1 < downsample then iloc_step_heap downsample df h2 else Inr (df, h2)) of
                Inl e \<Rightarrow> Inl e
              | Inr (df', h3) \<Rightarrow> add_trace_heap kind r k df' det_map fig h3))"

fun add_traces_heap ::
  "string \<Rightarrow> nat \<Rightarrow> nat \<Rightarrow> int \<Rightarrow> (int \<times> timestamp frame) list \<Rightarrow> nat \<Rightarrow> heap \<Rightarrow> error + heap" where
  "add_traces_heap kind r det_map downsample [] fig h = Inr h"
| "add_traces_heap kind r det_map downsample ((k, g) # gs) fig h =
     (case trace_group_heap kind r det_map downsample k g fig h of
        Inl e \<Rightarrow> Inl e
      | Inr h' \<Rightarrow> add_traces_heap kind r det_map downsample gs fig h')"

text \<open>
  \<open>cur\<close>, \<open>vol\<close> and \<open>det_map\<close> are the references the caller passes. The result is the
  error raised, or the figure shown together with the store after the call.
\<close>

definition plot_all_heap ::
  "nat \<Rightarrow> nat \<Rightarrow> nat \<Rightarrow> int \<Rightarrow> heap \<Rightarrow> error + figure \<times> heap" where
  "plot_all_heap cur vol det_map downsample h =
     (let (fig, h0) =
            alloc (Fig (make_subplots 2 1 True (1 / 10)
                     [''Current over Time'', ''Voltage over Time''])) h
      in case get_frame cur h0 of
           Inl e \<Rightarrow> Inl e
         | Inr c \<Rightarrow>
             (case add_traces_heap ''Current'' 1 det_map downsample (groupby_det_id c) fig h0 of
                Inl e \<Rightarrow> Inl e
              | Inr h1 \<Rightarrow>
                  (case get_frame vol h1 of
                     Inl e \<Rightarrow> Inl e
                   | Inr v \<Rightarrow>
                       (case add_traces_heap ''Voltage'' 2 det_map downsample
                               (groupby_det_id v) fig h1 of
                          Inl e \<Rightarrow> Inl e
                        | Inr h2 \<Rightarrow>
                            (case get_fig fig h2 of
                               Inl e \<Rightarrow> Inl e
                             | Inr fg \<Rightarrow>
                                 (let fg' = update_layout 800
                                        ''Current and Voltage Measurements'' ''Time'' fg
                                  in Inr (fg', h2[fig := Fig fg'])))))))"

section \<open>Notions used to state the properties\<close>

text \<open>The rows a measurement query retrieves for a catalog: those whose identifier is a key.\<close>

definition retrieved :: "table \<Rightarrow> store \<Rightarrow> dict \<Rightarrow> int frame" where
  "retrieved t s det_map = filter (\<lambda>r. det_id r \<in> set (keys det_map)) (table_rows t s)"

text \<open>The stored second count a timestamp stands for.\<close>

fun epoch_seconds :: "timestamp \<Rightarrow> int" where
  "epoch_seconds NaT = - (2 ^ 63)"
| "epoch_seconds (Timestamp ns) = ns div 1000000000"

text \<open>A loaded row is the stored row with its time read as seconds since the epoch.\<close>

definition converted :: "int row \<Rightarrow> timestamp row \<Rightarrow> bool" where
  "converted r r' \<longleftrightarrow>
     det_id r' = det_id r \<and> val r' = val r \<and>
     time r' = (if time r = - (2 ^ 63) then NaT else Timestamp (time r * 1000000000)) \<and>
     epoch_seconds (time r') = time r"

text \<open>
  The stored second counts whose nanosecond count fits: \<open>\<bar>t\<bar> \<le> 9223372036\<close>. Such a
  row is loaded with the calendar timestamp of \<open>t\<close> seconds after the epoch.
\<close>

definition representable :: "int \<Rightarrow> bool" where
  "representable t \<longleftrightarrow> - (2 ^ 63) < t * 1000000000 \<and> t * 1000000000 < 2 ^ 63"

definition seconds_converted :: "int row \<Rightarrow> timestamp row \<Rightarrow> bool" where
  "seconds_converted r r' \<longleftrightarrow>
     det_id r' = det_id r \<and> val r' = val r \<and>
     time r' = Timestamp (time r * 1000000000) \<and> epoch_seconds (time r') = time r"

text \<open>Comparison of timestamps as pandas has it: \<^verbatim>\<open>NaT\<close> compares false with everything.\<close>

fun ts_le :: "timestamp \<Rightarrow> timestamp \<Rightarrow> bool" where
  "ts_le (Timestamp a) (Timestamp b) = (a \<le> b)"
| "ts_le _ _ = False"

definition non_decreasing :: "timestamp list \<Rightarrow> bool" where
  "non_decreasing ts = sorted_wrt ts_le ts"

text \<open>The frame of one kind in what \<^verbatim>\<open>load_measurements\<close> returns.\<close>

fun frame_of :: "table \<Rightarrow> timestamp frame \<times> timestamp frame \<times> dict \<Rightarrow> timestamp frame" where
  "frame_of Current (cur, vol, det_map) = cur"
| "frame_of Voltage (cur, vol, det_map) = vol"

text \<open>The samples of a sequence at the indices \<open>0, n, 2n, \<dots>\<close> that exist.\<close>

definition at_multiples :: "nat \<Rightarrow> 'a list \<Rightarrow> 'a list" where
  "at_multiples n xs = map (\<lambda>i. xs ! (i * n)) (filter (\<lambda>i. i * n < length xs) [0..<length xs])"

text \<open>The time and value sequences, and the names, of the traces of one row of a figure.\<close>

definition series :: "nat \<Rightarrow> figure \<Rightarrow> (timestamp list \<times> real list) list" where
  "series r fig =
     map (\<lambda>(t, r', c). (trace_x t, trace_y t)) (filter (\<lambda>(t, r', c). r' = r) (fig_data fig))"

definition names :: "nat \<Rightarrow> figure \<Rightarrow> string list" where
  "names r fig = map (\<lambda>(t, r', c). trace_name t) (filter (\<lambda>(t, r', c). r' = r) (fig_data fig))"

text \<open>The columns of a group, and the label the catalog gives an identifier.\<close>

definition columns :: "timestamp frame \<Rightarrow> timestamp list \<times> real list" where
  "columns g = (map time g, map val g)"

definition label :: "dict \<Rightarrow> int \<Rightarrow> string" where
  "label det_map k = (case map_of det_map k of Some n \<Rightarrow> n | None \<Rightarrow> str k)"

text \<open>What the guard and the slice of the loop body keep of a group.\<close>

definition kept :: "int \<Rightarrow> 'a list \<Rightarrow> 'a list" where
  "kept downsample g = (if 1 < downsample then every (nat downsample - 1) g else g)"

text \<open>The figure \<^verbatim>\<open>plot_all\<close> builds, in closed form.\<close>

definition shown :: "timestamp frame \<Rightarrow> timestamp frame \<Rightarrow> dict \<Rightarrow> int \<Rightarrow> figure" where
  "shown cur vol det_map downsample =
     \<lparr>grid_rows = 2, grid_cols = 1, shared_xaxes = True, vertical_spacing = 1 / 10,
      subplot_titles = [''Current over Time'', ''Voltage over Time''],
      fig_data =
        map (\<lambda>(k, g). (scatter ''Current'' det_map k (kept downsample g), 1, 1)) (groupby_det_id cur) @
        map (\<lambda>(k, g). (scatter ''Voltage'' det_map k (kept downsample g), 2, 1)) (groupby_det_id vol),
      layout_height = Some 800, title_text = Some ''Current and Voltage Measurements'',
      xaxis_title = Some ''Time''\<rparr>"

section \<open>Facts about load_measurements\<close>

lemma fst_set_foldl_update:
  "fst ` set (foldl (\<lambda>d (k, v). AList.update k v d) d0 rows) = fst ` set d0 \<union> fst ` set rows"
proof (induction rows arbitrary: d0)
  case Nil
  show ?case by simp
next
  case (Cons p rows)
  obtain k v where p: "p = (k, v)" by (cases p)
  show ?case by (simp add: p Cons.IH AList.dom_update)
qed

lemma set_keys_dict_of: "set (keys (dict_of rows)) = fst ` set rows"
  by (simp add: keys_def dict_of_def fst_set_foldl_update)

lemma to_datetime_s_Inr:
  "to_datetime_s t = Inr ts \<Longrightarrow>
     ts = (if t = - (2 ^ 63) then NaT else Timestamp (t * 1000000000)) \<and> epoch_seconds ts = t"
  by (auto simp: to_datetime_s_def split: if_splits)

lemma to_datetime_converted:
  "to_datetime rs = Inr rs' \<Longrightarrow> list_all2 converted rs rs'"
proof (induction rs arbitrary: rs')
  case Nil
  then show ?case by simp
next
  case (Cons r rs)
  then show ?case
    by (auto simp: converted_def split: sum.splits dest!: to_datetime_s_Inr)
qed

lemma load_measurements_Inr:
  assumes "snd (load_measurements s) = Inr (cur, vol, det_map)"
  shows "det_map = dict_of (detector s)"
    and "to_datetime (retrieved Current s det_map) = Inr cur"
    and "to_datetime (retrieved Voltage s det_map) = Inr vol"
  using assms
  by (auto simp: load_measurements_def fetch_detector_def connect_def read_sql_def
      retrieved_def Let_def split: sum.splits)

lemma load_measurements_executed:
  "fst (load_measurements s) =
     [SelectDetector, SelectMeasurements Current (keys (dict_of (detector s))),
      SelectMeasurements Voltage (keys (dict_of (detector s)))]"
  by (simp add: load_measurements_def fetch_detector_def connect_def read_sql_def Let_def)

lemma converted_det_id: "list_all2 converted rs rs' \<Longrightarrow> map det_id rs' = map det_id rs"
  by (induction rule: list_all2_induct) (auto simp: converted_def)

lemma converted_filter:
  "list_all2 converted rs rs' \<Longrightarrow>
     list_all2 converted (filter (\<lambda>r. det_id r = k) rs) (filter (\<lambda>r. det_id r = k) rs')"
  by (induction rule: list_all2_induct) (auto simp: converted_def)

lemma retrieved_ids: "det_id ` set (retrieved t s det_map) \<subseteq> set (keys det_map)"
  by (auto simp: retrieved_def)

lemma converted_set_det_id: "list_all2 converted rs rs' \<Longrightarrow> det_id ` set rs' = det_id ` set rs"
  by (induction rule: list_all2_induct) (auto simp: converted_def)

lemmas load_defs = load_measurements_def fetch_detector_def connect_def dict_of_def
  read_sql_def keys_def table_rows_def to_datetime_s_def

lemma to_datetime_returns:
  "(\<forall>r \<in> set rs. time r = - (2 ^ 63) \<or> \<bar>time r\<bar> \<le> 9223372036) \<Longrightarrow> \<exists>rs'. to_datetime rs = Inr rs'"
  by (induction rs) (auto simp: to_datetime_s_def)

lemma load_measurements_returns:
  assumes "\<forall>r \<in> set (current s) \<union> set (voltage s). time r = - (2 ^ 63) \<or> \<bar>time r\<bar> \<le> 9223372036"
  shows "\<exists>cur vol. snd (load_measurements s) = Inr (cur, vol, dict_of (detector s))"
proof -
  have "\<exists>c. to_datetime (retrieved Current s (dict_of (detector s))) = Inr c"
    using assms by (intro to_datetime_returns) (auto simp: retrieved_def table_rows_def)
  moreover have "\<exists>v. to_datetime (retrieved Voltage s (dict_of (detector s))) = Inr v"
    using assms by (intro to_datetime_returns) (auto simp: retrieved_def table_rows_def)
  ultimately show ?thesis
    by (auto simp: load_measurements_def fetch_detector_def connect_def read_sql_def
      retrieved_def Let_def)
qed

lemma sorted_converted:
  "list_all2 converted rs g \<Longrightarrow> NaT \<notin> time ` set g \<Longrightarrow>
     non_decreasing (map time g) = sorted (map time rs)"
  unfolding non_decreasing_def
proof (induction rule: list_all2_induct)
  case Nil
  show ?case by simp
next
  case (Cons r rs r' g)
  have t: "time r' = Timestamp (time r * 1000000000)"
    using Cons.hyps(1) Cons.prems by (auto simp: converted_def split: if_splits)
  have "(\<forall>y\<in>set g. ts_le (time r') (time y)) = (\<forall>x\<in>set rs. time r \<le> time x)"
    using Cons.hyps(2) Cons.prems
  proof (induction rule: list_all2_induct)
    case Nil
    show ?case by simp
  next
    case (Cons x xs y ys)
    have "time y = Timestamp (time x * 1000000000)"
      using Cons.hyps(1) Cons.prems by (auto simp: converted_def split: if_splits)
    then show ?case using Cons t by simp
  qed
  then show ?case using Cons by simp
qed

lemma representable_bounds: "representable t \<longleftrightarrow> \<bar>t\<bar> \<le> 9223372036"
  by (auto simp: representable_def)

lemma to_datetime_s_representable:
  "representable t \<Longrightarrow> to_datetime_s t = Inr (Timestamp (t * 1000000000))"
  by (auto simp: representable_def to_datetime_s_def)

lemma to_datetime_representable:
  "\<forall>r \<in> set rs. representable (time r) \<Longrightarrow>
     \<exists>rs'. to_datetime rs = Inr rs' \<and> list_all2 seconds_converted rs rs'"
proof (induction rs)
  case Nil
  show ?case by simp
next
  case (Cons r rs)
  then obtain rs' where rs': "to_datetime rs = Inr rs'" "list_all2 seconds_converted rs rs'"
    by auto
  have "to_datetime_s (time r) = Inr (Timestamp (time r * 1000000000))"
    using Cons.prems by (simp add: to_datetime_s_representable)
  moreover have "seconds_converted r \<lparr>det_id = det_id r, val = val r,
      time = Timestamp (time r * 1000000000)\<rparr>"
    by (simp add: seconds_converted_def)
  ultimately show ?case using rs' by simp
qed

lemma nat_breaks_order:
  assumes "NaT \<in> set ts" "1 < length ts"
  shows "\<not> sorted_wrt ts_le ts"
proof
  assume s: "sorted_wrt ts_le ts"
  from assms(1) obtain i where i: "i < length ts" "ts ! i = NaT" by (auto simp: in_set_conv_nth)
  have "(if i = 0 then 1 else 0) < length ts" "(if i = 0 then 1 else 0) \<noteq> i"
    using assms(2) i(1) by auto
  then obtain j where j: "j < length ts" "j \<noteq> i" by blast
  then consider "i < j" | "j < i" by linarith
  then show False
  proof cases
    case 1
    then have "ts_le (ts ! i) (ts ! j)" using s j(1) unfolding sorted_wrt_iff_nth_less by blast
    then show False using i by simp
  next
    case 2
    then have "ts_le (ts ! j) (ts ! i)" using s i(1) unfolding sorted_wrt_iff_nth_less by blast
    then show False using i by (cases "ts ! j") simp_all
  qed
qed

lemma converted_NaT:
  "list_all2 converted rs g \<Longrightarrow> NaT \<in> time ` set g \<longleftrightarrow> - (2 ^ 63) \<in> time ` set rs"
  by (induction rule: list_all2_induct) (auto simp: converted_def split: if_splits)

lemma non_decreasing_converted:
  assumes "list_all2 converted rs g"
  shows "non_decreasing (map time g) \<longleftrightarrow>
           sorted (map time rs) \<and> (length rs \<le> 1 \<or> - (2 ^ 63) \<notin> time ` set rs)"
proof (cases "NaT \<in> time ` set g")
  case False
  then show ?thesis
    using sorted_converted [OF assms] converted_NaT [OF assms] by simp
next
  case True
  note len = list_all2_lengthD [OF assms]
  show ?thesis
  proof (cases "length rs \<le> 1")
    case True
    then have "length (map time g) \<le> 1" "length (map time rs) \<le> 1" using len by simp_all
    then have "sorted_wrt ts_le (map time g)" "sorted (map time rs)"
      by (simp_all add: sorted_wrt01 sorted01)
    then show ?thesis using True by (simp add: non_decreasing_def)
  next
    case False
    then have "1 < length (map time g)" using len by simp
    moreover have "NaT \<in> set (map time g)" using True by simp
    ultimately have "\<not> sorted_wrt ts_le (map time g)" by (rule nat_breaks_order [rotated])
    then show ?thesis
      using False True converted_NaT [OF assms] by (simp add: non_decreasing_def)
  qed
qed

section \<open>Facts about slicing\<close>

lemma every_0: "every 0 xs = xs"
  by (induction xs) auto

lemma length_every: "length (every m xs) = (length xs + m) div Suc m"
proof (induction m xs rule: every.induct)
  case (1 m)
  show ?case by simp
next
  case (2 m a as)
  show ?case
  proof (cases "m \<le> length as")
    case True
    have "(Suc (length as) + m) div Suc m = (length as + Suc m) div Suc m" by simp
    also have "\<dots> = length as div Suc m + 1" by (rule div_add_self2) simp
    finally show ?thesis using 2 True by simp
  next
    case False
    then have "(Suc (length as) + m) div Suc m = 1"
      by (intro div_nat_eqI) auto
    with False 2 show ?thesis by simp
  qed
qed

lemma nth_every: "i < length (every m xs) \<Longrightarrow> every m xs ! i = xs ! (i * Suc m)"
proof (induction m xs arbitrary: i rule: every.induct)
  case (1 m)
  then show ?case by simp
next
  case (2 m a as)
  show ?case
  proof (cases i)
    case 0
    then show ?thesis by simp
  next
    case (Suc j)
    with 2 have j: "j < length (every m (drop m as))" by simp
    then have "drop m as \<noteq> []" by auto
    then have m: "m \<le> length as" by simp
    have "every m (drop m as) ! j = drop m as ! (j * Suc m)" using 2 j by simp
    also have "\<dots> = as ! (m + j * Suc m)" using m by (simp add: nth_drop)
    finally show ?thesis using Suc by (simp add: ac_simps)
  qed
qed

lemma filter_upt_prefix:
  "k \<le> m \<Longrightarrow> (\<And>i. i < m \<Longrightarrow> P i \<longleftrightarrow> i < k) \<Longrightarrow> filter P [0..<m] = [0..<k]"
proof (induction m)
  case 0
  then show ?case by simp
next
  case (Suc m)
  show ?case
  proof (cases "k = Suc m")
    case True
    then have "filter P [0..<m] = [0..<m]" using Suc.prems(2) by (auto simp: filter_id_conv)
    moreover have "P m" using Suc.prems(2) True by simp
    ultimately show ?thesis using True by simp
  next
    case False
    then have "k \<le> m" using Suc.prems(1) by simp
    moreover have "\<not> P m" using Suc.prems(2) \<open>k \<le> m\<close> by simp
    ultimately show ?thesis using Suc by simp
  qed
qed

lemma every_at_multiples: "every m xs = at_multiples (Suc m) xs"
proof -
  let ?k = "(length xs + m) div Suc m"
  have iff: "i * Suc m < length xs \<longleftrightarrow> i < ?k" for i
  proof -
    have "i < ?k \<longleftrightarrow> Suc i \<le> ?k" by (simp add: Suc_le_eq)
    also have "\<dots> \<longleftrightarrow> Suc i * Suc m \<le> length xs + m"
      by (rule less_eq_div_iff_mult_less_eq) simp
    also have "\<dots> \<longleftrightarrow> i * Suc m < length xs" by auto
    finally show ?thesis by simp
  qed
  have k: "?k \<le> length xs"
  proof (rule ccontr)
    assume "\<not> ?k \<le> length xs"
    then have "length xs < ?k" by simp
    then have "length xs * Suc m < length xs" using iff by blast
    then show False by simp
  qed
  have "filter (\<lambda>i. i * Suc m < length xs) [0..<length xs] = [0..<?k]"
    using k iff by (intro filter_upt_prefix) auto
  then have "at_multiples (Suc m) xs = map (\<lambda>i. xs ! (i * Suc m)) [0..<?k]"
    by (simp add: at_multiples_def)
  also have "\<dots> = every m xs"
    by (rule nth_equalityI[symmetric]) (simp_all add: length_every nth_every)
  finally show ?thesis by simp
qed

section \<open>Facts about plot_all\<close>

lemma decimate_kept: "decimate downsample g = Inr (kept downsample g)"
  by (simp add: decimate_def iloc_step_def kept_def)

lemma add_traces_data:
  "add_traces kind r det_map downsample gs fig =
     Inr (fig\<lparr>fig_data := fig_data fig @
            map (\<lambda>(k, g). (scatter kind det_map k (kept downsample g), r, 1)) gs\<rparr>)"
proof (induction gs arbitrary: fig)
  case Nil
  show ?case by simp
next
  case (Cons p gs)
  obtain k g where p: "p = (k, g)" by (cases p)
  show ?case by (simp add: p decimate_kept Cons.IH add_trace_def)
qed

lemma plot_all_shown: "plot_all cur vol det_map downsample = Inr (shown cur vol det_map downsample)"
  by (simp add: plot_all_def add_traces_data make_subplots_def update_layout_def shown_def)

lemma series_shown:
  "series 1 (shown cur vol det_map downsample) =
     map (\<lambda>(k, g). columns (kept downsample g)) (groupby_det_id cur)"
  "series 2 (shown cur vol det_map downsample) =
     map (\<lambda>(k, g). columns (kept downsample g)) (groupby_det_id vol)"
  by (simp_all add: series_def shown_def filter_map o_def split_def scatter_def columns_def)

lemma names_shown:
  "names 1 (shown cur vol det_map downsample) =
     map (\<lambda>(k, g). ''Current '' @ label det_map k) (groupby_det_id cur)"
  "names 2 (shown cur vol det_map downsample) =
     map (\<lambda>(k, g). ''Voltage '' @ label det_map k) (groupby_det_id vol)"
  by (simp_all add: names_def shown_def filter_map o_def split_def scatter_def label_def dict_get_def
      split: option.splits)

lemma groupby_keys: "map fst (groupby_det_id df) = sort (remdups (map det_id df))"
  by (simp add: groupby_det_id_def o_def)

lemma groupby_group:
  "(k, g) \<in> set (groupby_det_id df) \<longleftrightarrow> k \<in> det_id ` set df \<and> g = filter (\<lambda>r. det_id r = k) df"
  by (auto simp: groupby_det_id_def)

lemma kept_at_multiples: "1 \<le> n \<Longrightarrow> kept n g = at_multiples (nat n) g"
proof -
  assume n: "1 \<le> n"
  have "every (nat n - 1) g = at_multiples (Suc (nat n - 1)) g" by (rule every_at_multiples)
  moreover have "Suc (nat n - 1) = nat n" using n by simp
  moreover have "every 0 g = g" by (rule every_0)
  ultimately show ?thesis using n by (cases "n = 1") (auto simp: kept_def)
qed

section \<open>Facts about plot_all over the store of objects\<close>

lemma get_frame_new: "get_frame (length h) (h @ Frame df # rest) = Inr df"
  by (simp add: get_frame_def)

lemma get_frame_old: "a < length h \<Longrightarrow> get_frame a (h @ rest) = get_frame a h"
  by (simp add: get_frame_def nth_append)

lemma get_dict_old: "a < length h \<Longrightarrow> h ! a = Dict d \<Longrightarrow> get_dict a (h @ rest) = Inr d"
  by (simp add: get_dict_def nth_append)

lemma get_fig_old: "a < length h \<Longrightarrow> h ! a = Fig fg \<Longrightarrow> get_fig a (h @ rest) = Inr fg"
  by (simp add: get_fig_def nth_append)

lemma trace_group_heap_Inr:
  assumes "d < length h" "f < length h" "h ! d = Dict dm" "h ! f = Fig fg"
  shows "\<exists>rest. trace_group_heap kind r d n k g f h
     = Inr ((h @ rest)[f := Fig (add_trace (scatter kind dm k (kept n g)) r 1 fg)])"
proof -
  have c: "copy_heap (length h) (h @ [Frame g]) = Inr (Suc (length h), h @ [Frame g, Frame g])"
    by (simp add: copy_heap_def get_frame_new alloc_def)
  show ?thesis
  proof (cases "1 < n")
    case True
    have i: "iloc_step_heap n (Suc (length h)) (h @ [Frame g, Frame g])
               = Inr (Suc (Suc (length h)), h @ [Frame g, Frame g, Frame (kept n g)])"
      using True get_frame_new [of "h @ [Frame g]" g "[]"]
      by (simp add: iloc_step_heap_def alloc_def iloc_step_def kept_def)
    have a: "add_trace_heap kind r k (Suc (Suc (length h))) d f (h @ [Frame g, Frame g, Frame (kept n g)])
               = Inr ((h @ [Frame g, Frame g, Frame (kept n g)])
                        [f := Fig (add_trace (scatter kind dm k (kept n g)) r 1 fg)])"
      using assms get_frame_new [of "h @ [Frame g, Frame g]" "kept n g" "[]"]
      by (simp add: add_trace_heap_def get_dict_old get_fig_old)
    have "trace_group_heap kind r d n k g f h
            = Inr ((h @ [Frame g, Frame g, Frame (kept n g)])
                     [f := Fig (add_trace (scatter kind dm k (kept n g)) r 1 fg)])"
      using True c i a by (simp add: trace_group_heap_def alloc_def)
    then show ?thesis by blast
  next
    case False
    have a: "add_trace_heap kind r k (Suc (length h)) d f (h @ [Frame g, Frame g])
               = Inr ((h @ [Frame g, Frame g])
                        [f := Fig (add_trace (scatter kind dm k (kept n g)) r 1 fg)])"
      using assms get_frame_new [of "h @ [Frame g]" "g" "[]"] False
      by (simp add: add_trace_heap_def get_dict_old get_fig_old kept_def)
    have "trace_group_heap kind r d n k g f h
            = Inr ((h @ [Frame g, Frame g])
                     [f := Fig (add_trace (scatter kind dm k (kept n g)) r 1 fg)])"
      using False c a by (simp add: trace_group_heap_def alloc_def)
    then show ?thesis by blast
  qed
qed

lemma add_traces_heap_frame:
  assumes "d < f" "f < length h" "h ! d = Dict dm" "h ! f = Fig fg"
  shows "\<exists>h'. add_traces_heap kind r d n gs f h = Inr h' \<and> take f h' = take f h \<and>
           length h \<le> length h' \<and>
           h' ! f = Fig (fg\<lparr>fig_data := fig_data fg @
                     map (\<lambda>(k, g). (scatter kind dm k (kept n g), r, 1)) gs\<rparr>)"
  using assms
proof (induction gs arbitrary: h fg)
  case Nil
  then show ?case by simp
next
  case (Cons p gs)
  obtain k g where p: "p = (k, g)" by (cases p)
  let ?fg = "add_trace (scatter kind dm k (kept n g)) r 1 fg"
  from Cons.prems have d: "d < length h" by simp
  from trace_group_heap_Inr [OF d Cons.prems(2) Cons.prems(3) Cons.prems(4)]
  obtain rest where body:
    "trace_group_heap kind r d n k g f h = Inr ((h @ rest)[f := Fig ?fg])" by blast
  let ?h4 = "(h @ rest)[f := Fig ?fg]"
  have h4: "f < length ?h4" "?h4 ! d = Dict dm" "?h4 ! f = Fig ?fg"
    using Cons.prems d by (simp_all add: nth_append)
  from Cons.IH [OF Cons.prems(1) h4]
  obtain h' where h': "add_traces_heap kind r d n gs f ?h4 = Inr h'" "take f h' = take f ?h4"
    "length ?h4 \<le> length h'"
    "h' ! f = Fig (?fg\<lparr>fig_data := fig_data ?fg @
                     map (\<lambda>(k, g). (scatter kind dm k (kept n g), r, 1)) gs\<rparr>)" by blast
  have step: "add_traces_heap kind r d n (p # gs) f h = add_traces_heap kind r d n gs f ?h4"
    using body by (simp add: p)
  have "take f h' = take f h" "length h \<le> length h'"
    using h'(2,3) Cons.prems(2) by simp_all
  moreover have "?fg\<lparr>fig_data := fig_data ?fg @
                     map (\<lambda>(k, g). (scatter kind dm k (kept n g), r, 1)) gs\<rparr>
      = fg\<lparr>fig_data := fig_data fg @
                     map (\<lambda>(k, g). (scatter kind dm k (kept n g), r, 1)) (p # gs)\<rparr>"
    by (simp add: p add_trace_def)
  ultimately show ?case using h'(1,4) unfolding step by metis
qed

lemma plot_all_heap_shown:
  assumes "c < length h" "v < length h" "d < length h"
    and "h ! c = Frame cur" "h ! v = Frame vol" "h ! d = Dict dm"
  shows "\<exists>h'. plot_all_heap c v d n h = Inr (shown cur vol dm n, h') \<and> take (length h) h' = h"
proof -
  let ?f = "length h"
  let ?fg0 = "make_subplots 2 1 True (1 / 10) [''Current over Time'', ''Voltage over Time'']"
  let ?h0 = "h @ [Fig ?fg0]"
  have h0: "?f < length ?h0" "?h0 ! d = Dict dm" "?h0 ! ?f = Fig ?fg0"
    using assms by (simp_all add: nth_append)
  from add_traces_heap_frame [OF assms(3) h0, where kind = "''Current''" and r = 1 and n = n and gs = "groupby_det_id cur"]
  obtain h1 where h1: "add_traces_heap ''Current'' 1 d n (groupby_det_id cur) ?f ?h0 = Inr h1"
    "take ?f h1 = take ?f ?h0" "length ?h0 \<le> length h1"
    "h1 ! ?f = Fig (?fg0\<lparr>fig_data := fig_data ?fg0 @
        map (\<lambda>(k, g). (scatter ''Current'' dm k (kept n g), 1, 1)) (groupby_det_id cur)\<rparr>)"
    by blast
  let ?fg1 = "?fg0\<lparr>fig_data := fig_data ?fg0 @
        map (\<lambda>(k, g). (scatter ''Current'' dm k (kept n g), 1, 1)) (groupby_det_id cur)\<rparr>"
  have t1: "take ?f h1 = h" using h1(2) by simp
  have old1: "a < ?f \<Longrightarrow> h1 ! a = h ! a" for a
    using t1 by (metis nth_take)
  have h1': "?f < length h1" "h1 ! d = Dict dm" using h1(3) assms old1 by simp_all
  from add_traces_heap_frame [OF assms(3) h1' h1(4), where kind = "''Voltage''" and r = 2 and n = n and gs = "groupby_det_id vol"]
  obtain h2 where h2: "add_traces_heap ''Voltage'' 2 d n (groupby_det_id vol) ?f h1 = Inr h2"
    "take ?f h2 = take ?f h1" "length h1 \<le> length h2"
    "h2 ! ?f = Fig (?fg1\<lparr>fig_data := fig_data ?fg1 @
        map (\<lambda>(k, g). (scatter ''Voltage'' dm k (kept n g), 2, 1)) (groupby_det_id vol)\<rparr>)"
    by blast
  have gc: "get_frame c ?h0 = Inr cur" using assms by (simp add: get_frame_def nth_append)
  have gv: "get_frame v h1 = Inr vol" using assms old1 h1' by (simp add: get_frame_def)
  have gf: "get_fig ?f h2 = Inr (?fg1\<lparr>fig_data := fig_data ?fg1 @
        map (\<lambda>(k, g). (scatter ''Voltage'' dm k (kept n g), 2, 1)) (groupby_det_id vol)\<rparr>)"
    using h2 h1' by (simp add: get_fig_def)
  have "take ?f (h2[?f := x]) = h" for x using h2(2) t1 by simp
  then show ?thesis
    using gc gv gf h1(1) h2(1)
    by (simp add: plot_all_heap_def alloc_def Let_def shown_def make_subplots_def update_layout_def)
qed

section \<open>Properties of the extraction\<close>

text \<open>
  Claim C1. Whenever \<^verbatim>\<open>load_measurements\<close> returns, every row of the returned current and
  voltage frames carries an identifier that is a key of the returned catalog. The containment
  comes from the queries: both measurement statements carry exactly the keys of the catalog
  in their \<^verbatim>\<open>IN\<close> list, and the returned frames have the rows those queries retrieve,
  identifier by identifier; nothing is removed afterwards.
\<close>

theorem load_measurements_ids_in_catalog:
  assumes "snd (load_measurements s) = Inr (cur, vol, det_map)"
  shows "det_id ` (set cur \<union> set vol) \<subseteq> set (keys det_map) \<and>
         fst (load_measurements s) =
           [SelectDetector, SelectMeasurements Current (keys det_map),
            SelectMeasurements Voltage (keys det_map)] \<and>
         map det_id cur = map det_id (retrieved Current s det_map) \<and>
         map det_id vol = map det_id (retrieved Voltage s det_map)"
proof -
  note r = load_measurements_Inr [OF assms]
  have c: "list_all2 converted (retrieved Current s det_map) cur"
    using r(2) by (rule to_datetime_converted)
  have v: "list_all2 converted (retrieved Voltage s det_map) vol"
    using r(3) by (rule to_datetime_converted)
  have "det_id ` set cur \<subseteq> set (keys det_map)"
    unfolding converted_set_det_id [OF c] by (rule retrieved_ids)
  moreover have "det_id ` set vol \<subseteq> set (keys det_map)"
    unfolding converted_set_det_id [OF v] by (rule retrieved_ids)
  ultimately have ids: "det_id ` (set cur \<union> set vol) \<subseteq> set (keys det_map)"
    by (simp add: image_Un)
  have ex: "fst (load_measurements s) =
           [SelectDetector, SelectMeasurements Current (keys det_map),
            SelectMeasurements Voltage (keys det_map)]"
    unfolding r(1) by (rule load_measurements_executed)
  show ?thesis
    using ids ex converted_det_id [OF c] converted_det_id [OF v] by (intro conjI)
qed

theorem load_measurements_ids_in_catalog_witness:
  "snd (load_measurements
      \<lparr>detector = [(1, ''PMT-A''), (2, ''PMT-B'')],
       current = [\<lparr>det_id = 1, val = 10, time = 1000\<rparr>, \<lparr>det_id = 1, val = 12, time = 1002\<rparr>,
                  \<lparr>det_id = 2, val = 5, time = 1001\<rparr>, \<lparr>det_id = 3, val = 99, time = 1003\<rparr>],
       voltage = [\<lparr>det_id = 3, val = 1500, time = 1000\<rparr>, \<lparr>det_id = 2, val = 1490, time = 1001\<rparr>]\<rparr>)
     = Inr ([\<lparr>det_id = 1, val = 10, time = Timestamp 1000000000000\<rparr>,
        \<lparr>det_id = 1, val = 12, time = Timestamp 1002000000000\<rparr>,
        \<lparr>det_id = 2, val = 5, time = Timestamp 1001000000000\<rparr>],
            [\<lparr>det_id = 2, val = 1490, time = Timestamp 1001000000000\<rparr>],
            [(1, ''PMT-A''), (2, ''PMT-B'')]) \<and>
   det_id ` (set [\<lparr>det_id = 1, val = 10, time = Timestamp 1000000000000\<rparr>,
        \<lparr>det_id = 1, val = 12, time = Timestamp 1002000000000\<rparr>,
        \<lparr>det_id = 2, val = 5, time = Timestamp 1001000000000\<rparr>] \<union>
             set [\<lparr>det_id = 2, val = 1490, time = Timestamp 1001000000000\<rparr>])
     \<subseteq> set (keys [(1, ''PMT-A''), (2, ''PMT-B'')])"
proof -
  have h: "snd (load_measurements
      \<lparr>detector = [(1, ''PMT-A''), (2, ''PMT-B'')],
       current = [\<lparr>det_id = 1, val = 10, time = 1000\<rparr>, \<lparr>det_id = 1, val = 12, time = 1002\<rparr>,
                  \<lparr>det_id = 2, val = 5, time = 1001\<rparr>, \<lparr>det_id = 3, val = 99, time = 1003\<rparr>],
       voltage = [\<lparr>det_id = 3, val = 1500, time = 1000\<rparr>, \<lparr>det_id = 2, val = 1490, time = 1001\<rparr>]\<rparr>)
     = Inr ([\<lparr>det_id = 1, val = 10, time = Timestamp 1000000000000\<rparr>,
        \<lparr>det_id = 1, val = 12, time = Timestamp 1002000000000\<rparr>,
        \<lparr>det_id = 2, val = 5, time = Timestamp 1001000000000\<rparr>],
            [\<lparr>det_id = 2, val = 1490, time = Timestamp 1001000000000\<rparr>],
            [(1, ''PMT-A''), (2, ''PMT-B'')])"
    by (simp add: load_defs)
  from load_measurements_ids_in_catalog [OF h] h show ?thesis by simp
qed

text \<open>
  Claim C8, as the code has it. The conversion is not applied to every retrieved row: a
  stored time of 9223372037 seconds is beyond what a nanosecond timestamp holds, and the whole
  call raises \<^verbatim>\<open>OutOfBoundsDatetime\<close>; the smallest 64-bit integer is loaded as the missing
  value \<^verbatim>\<open>NaT\<close>, which is no calendar timestamp.
\<close>

theorem load_measurements_time_conversion_counterexample:
  "snd (load_measurements
      \<lparr>detector = [(1, ''PMT-A'')],
       current = [\<lparr>det_id = 1, val = 10, time = 9223372037\<rparr>],
       voltage = []\<rparr>) = Inl OutOfBoundsDatetime \<and>
   snd (load_measurements
      \<lparr>detector = [(1, ''PMT-A'')],
       current = [\<lparr>det_id = 1, val = 10, time = - 9223372036854775808\<rparr>],
       voltage = []\<rparr>) = Inr ([\<lparr>det_id = 1, val = 10, time = NaT\<rparr>], [], [(1, ''PMT-A'')])"
  by (simp add: load_defs)

text \<open>
  Claim C8, amended. If the stored time of every retrieved row is within the range a
  nanosecond timestamp holds, \<^verbatim>\<open>load_measurements\<close> returns, and each returned frame is,
  position by position, the frame its query retrieved: same length and order, identifier and
  value untouched, and the time of every row is the calendar timestamp of the stored integer
  read as seconds since the epoch, from which the stored integer is recovered.
\<close>

theorem load_measurements_time_conversion_in_range:
  assumes "\<forall>r \<in> set (retrieved Current s (dict_of (detector s))) \<union>
                 set (retrieved Voltage s (dict_of (detector s))). representable (time r)"
  shows "\<exists>cur vol. snd (load_measurements s) = Inr (cur, vol, dict_of (detector s)) \<and>
           list_all2 seconds_converted (retrieved Current s (dict_of (detector s))) cur \<and>
           list_all2 seconds_converted (retrieved Voltage s (dict_of (detector s))) vol"
proof -
  let ?dm = "dict_of (detector s)"
  obtain cur where c: "to_datetime (retrieved Current s ?dm) = Inr cur"
      "list_all2 seconds_converted (retrieved Current s ?dm) cur"
    using to_datetime_representable [of "retrieved Current s ?dm"] assms by auto
  obtain vol where v: "to_datetime (retrieved Voltage s ?dm) = Inr vol"
      "list_all2 seconds_converted (retrieved Voltage s ?dm) vol"
    using to_datetime_representable [of "retrieved Voltage s ?dm"] assms by auto
  have "snd (load_measurements s) = Inr (cur, vol, ?dm)"
    using c(1) v(1)
    by (simp add: load_measurements_def fetch_detector_def connect_def read_sql_def
      retrieved_def Let_def)
  then show ?thesis using c(2) v(2) by blast
qed

theorem load_measurements_time_conversion_in_range_witness:
  "representable 1000 \<and> representable 1002 \<and> representable 1001 \<and>
   snd (load_measurements
        \<lparr>detector = [(1, ''PMT-A''), (2, ''PMT-B'')],
         current = [\<lparr>det_id = 1, val = 10, time = 1000\<rparr>, \<lparr>det_id = 1, val = 12, time = 1002\<rparr>,
                    \<lparr>det_id = 2, val = 5, time = 1001\<rparr>, \<lparr>det_id = 3, val = 99, time = 9223372037\<rparr>],
         voltage = [\<lparr>det_id = 2, val = 1490, time = 1001\<rparr>]\<rparr>)
     = Inr ([\<lparr>det_id = 1, val = 10, time = Timestamp 1000000000000\<rparr>,
             \<lparr>det_id = 1, val = 12, time = Timestamp 1002000000000\<rparr>,
             \<lparr>det_id = 2, val = 5, time = Timestamp 1001000000000\<rparr>],
            [\<lparr>det_id = 2, val = 1490, time = Timestamp 1001000000000\<rparr>],
            [(1, ''PMT-A''), (2, ''PMT-B'')]) \<and>
   list_all2 seconds_converted
     [\<lparr>det_id = 1, val = 10, time = 1000\<rparr>, \<lparr>det_id = 1, val = 12, time = 1002\<rparr>,
      \<lparr>det_id = 2, val = 5, time = 1001\<rparr>]
     [\<lparr>det_id = 1, val = 10, time = Timestamp 1000000000000\<rparr>,
      \<lparr>det_id = 1, val = 12, time = Timestamp 1002000000000\<rparr>,
      \<lparr>det_id = 2, val = 5, time = Timestamp 1001000000000\<rparr>]"
proof -
  have h: "\<forall>r \<in> set (retrieved Current
        \<lparr>detector = [(1, ''PMT-A''), (2, ''PMT-B'')],
         current = [\<lparr>det_id = 1, val = 10, time = 1000\<rparr>, \<lparr>det_id = 1, val = 12, time = 1002\<rparr>,
                    \<lparr>det_id = 2, val = 5, time = 1001\<rparr>, \<lparr>det_id = 3, val = 99, time = 9223372037\<rparr>],
         voltage = [\<lparr>det_id = 2, val = 1490, time = 1001\<rparr>]\<rparr>
        (dict_of (detector \<lparr>detector = [(1, ''PMT-A''), (2, ''PMT-B'')],
         current = [\<lparr>det_id = 1, val = 10, time = 1000\<rparr>, \<lparr>det_id = 1, val = 12, time = 1002\<rparr>,
                    \<lparr>det_id = 2, val = 5, time = 1001\<rparr>, \<lparr>det_id = 3, val = 99, time = 9223372037\<rparr>],
         voltage = [\<lparr>det_id = 2, val = 1490, time = 1001\<rparr>]\<rparr>))) \<union>
      set (retrieved Voltage
        \<lparr>detector = [(1, ''PMT-A''), (2, ''PMT-B'')],
         current = [\<lparr>det_id = 1, val = 10, time = 1000\<rparr>, \<lparr>det_id = 1, val = 12, time = 1002\<rparr>,
                    \<lparr>det_id = 2, val = 5, time = 1001\<rparr>, \<lparr>det_id = 3, val = 99, time = 9223372037\<rparr>],
         voltage = [\<lparr>det_id = 2, val = 1490, time = 1001\<rparr>]\<rparr>
        (dict_of (detector \<lparr>detector = [(1, ''PMT-A''), (2, ''PMT-B'')],
         current = [\<lparr>det_id = 1, val = 10, time = 1000\<rparr>, \<lparr>det_id = 1, val = 12, time = 1002\<rparr>,
                    \<lparr>det_id = 2, val = 5, time = 1001\<rparr>, \<lparr>det_id = 3, val = 99, time = 9223372037\<rparr>],
         voltage = [\<lparr>det_id = 2, val = 1490, time = 1001\<rparr>]\<rparr>))). representable (time r)"
    by (simp add: retrieved_def dict_of_def keys_def table_rows_def representable_def)
  have l: "snd (load_measurements
        \<lparr>detector = [(1, ''PMT-A''), (2, ''PMT-B'')],
         current = [\<lparr>det_id = 1, val = 10, time = 1000\<rparr>, \<lparr>det_id = 1, val = 12, time = 1002\<rparr>,
                    \<lparr>det_id = 2, val = 5, time = 1001\<rparr>, \<lparr>det_id = 3, val = 99, time = 9223372037\<rparr>],
         voltage = [\<lparr>det_id = 2, val = 1490, time = 1001\<rparr>]\<rparr>)
     = Inr ([\<lparr>det_id = 1, val = 10, time = Timestamp 1000000000000\<rparr>,
             \<lparr>det_id = 1, val = 12, time = Timestamp 1002000000000\<rparr>,
             \<lparr>det_id = 2, val = 5, time = Timestamp 1001000000000\<rparr>],
            [\<lparr>det_id = 2, val = 1490, time = Timestamp 1001000000000\<rparr>],
            [(1, ''PMT-A''), (2, ''PMT-B'')])"
    by (simp add: load_defs)
  have b: "representable 1000 \<and> representable 1002 \<and> representable 1001"
    by (simp add: representable_def)
  from load_measurements_time_conversion_in_range [OF h] b show ?thesis
    unfolding l by (simp add: retrieved_def dict_of_def keys_def table_rows_def)
qed

text \<open>
  Claim C2, as the code has it. Neither \<^verbatim>\<open>load_measurements\<close> nor \<^verbatim>\<open>plot_all\<close> sorts:
  the queries have no \<^verbatim>\<open>ORDER BY\<close> and \<^verbatim>\<open>groupby\<close> keeps the rows of a group in frame
  order. At a store whose rows for identifier 1 come with times 1002, 1000 the group of
  identifier 1 has its times in that order, which is not non-decreasing.
\<close>

theorem groups_keep_store_order_counterexample:
  "snd (load_measurements
      \<lparr>detector = [(1, ''PMT-A'')],
       current = [\<lparr>det_id = 1, val = 12, time = 1002\<rparr>, \<lparr>det_id = 1, val = 10, time = 1000\<rparr>],
       voltage = []\<rparr>)
     = Inr ([\<lparr>det_id = 1, val = 12, time = Timestamp 1002000000000\<rparr>,
             \<lparr>det_id = 1, val = 10, time = Timestamp 1000000000000\<rparr>], [], [(1, ''PMT-A'')]) \<and>
   groupby_det_id [\<lparr>det_id = 1, val = 12, time = Timestamp 1002000000000\<rparr>,
             \<lparr>det_id = 1, val = 10, time = Timestamp 1000000000000\<rparr>]
     = [(1, [\<lparr>det_id = 1, val = 12, time = Timestamp 1002000000000\<rparr>,
             \<lparr>det_id = 1, val = 10, time = Timestamp 1000000000000\<rparr>])] \<and>
   \<not> non_decreasing [Timestamp 1002000000000, Timestamp 1000000000000]"
  by (simp add: load_defs groupby_det_id_def non_decreasing_def)

text \<open>
  Claim C2, amended. For every identifier present in a returned frame, its group is, position
  by position, the conversion of the store's rows of that identifier in the store's order:
  nothing sorts. So the time sequence of the group is non-decreasing exactly when the store's
  rows of that identifier are already in non-decreasing time order and, where there are two
  or more of them, none has the smallest 64-bit integer as its time (it is loaded as
  \<^verbatim>\<open>NaT\<close>, which compares false with every timestamp).
\<close>

theorem groups_keep_store_order:
  assumes "snd (load_measurements s) = Inr res"
    and "(k, g) \<in> set (groupby_det_id (frame_of t res))"
  shows "list_all2 converted (filter (\<lambda>r. det_id r = k) (table_rows t s)) g \<and>
         (non_decreasing (map time g) \<longleftrightarrow>
            sorted (map time (filter (\<lambda>r. det_id r = k) (table_rows t s))) \<and>
            (length (filter (\<lambda>r. det_id r = k) (table_rows t s)) \<le> 1 \<or>
             - (2 ^ 63) \<notin> time ` set (filter (\<lambda>r. det_id r = k) (table_rows t s))))"
proof -
  obtain cur vol det_map where res: "res = (cur, vol, det_map)" by (cases res)
  note r = load_measurements_Inr [OF assms(1) [unfolded res]]
  have c: "list_all2 converted (retrieved t s det_map) (frame_of t res)"
    using r by (cases t) (simp_all add: res to_datetime_converted)
  from assms(2) have k: "k \<in> det_id ` set (frame_of t res)"
    and g: "g = filter (\<lambda>r. det_id r = k) (frame_of t res)"
    by (simp_all add: groupby_group)
  from k have "k \<in> set (keys det_map)"
    using converted_set_det_id [OF c] retrieved_ids by blast
  then have "filter (\<lambda>r. det_id r = k) (retrieved t s det_map)
               = filter (\<lambda>r. det_id r = k) (table_rows t s)"
    by (auto simp: retrieved_def intro: filter_cong)
  with converted_filter [OF c, of k] g
  have "list_all2 converted (filter (\<lambda>r. det_id r = k) (table_rows t s)) g" by simp
  then show ?thesis using non_decreasing_converted by blast
qed

theorem groups_keep_store_order_witness:
  "snd (load_measurements
      \<lparr>detector = [(1, ''PMT-A''), (2, ''PMT-B'')],
       current = [\<lparr>det_id = 1, val = 10, time = 1000\<rparr>, \<lparr>det_id = 2, val = 5, time = 1001\<rparr>,
                  \<lparr>det_id = 1, val = 12, time = 1002\<rparr>, \<lparr>det_id = 3, val = 99, time = 1003\<rparr>],
       voltage = []\<rparr>)
     = Inr ([\<lparr>det_id = 1, val = 10, time = Timestamp 1000000000000\<rparr>,
             \<lparr>det_id = 2, val = 5, time = Timestamp 1001000000000\<rparr>,
             \<lparr>det_id = 1, val = 12, time = Timestamp 1002000000000\<rparr>],
            [], [(1, ''PMT-A''), (2, ''PMT-B'')]) \<and>
   (1, [\<lparr>det_id = 1, val = 10, time = Timestamp 1000000000000\<rparr>,
        \<lparr>det_id = 1, val = 12, time = Timestamp 1002000000000\<rparr>])
     \<in> set (groupby_det_id (frame_of Current
            ([\<lparr>det_id = 1, val = 10, time = Timestamp 1000000000000\<rparr>,
              \<lparr>det_id = 2, val = 5, time = Timestamp 1001000000000\<rparr>,
              \<lparr>det_id = 1, val = 12, time = Timestamp 1002000000000\<rparr>],
             [], [(1, ''PMT-A''), (2, ''PMT-B'')]))) \<and>
   non_decreasing [Timestamp 1000000000000, Timestamp 1002000000000]"
proof -
  have h1: "snd (load_measurements
      \<lparr>detector = [(1, ''PMT-A''), (2, ''PMT-B'')],
       current = [\<lparr>det_id = 1, val = 10, time = 1000\<rparr>, \<lparr>det_id = 2, val = 5, time = 1001\<rparr>,
                  \<lparr>det_id = 1, val = 12, time = 1002\<rparr>, \<lparr>det_id = 3, val = 99, time = 1003\<rparr>],
       voltage = []\<rparr>)
     = Inr ([\<lparr>det_id = 1, val = 10, time = Timestamp 1000000000000\<rparr>,
             \<lparr>det_id = 2, val = 5, time = Timestamp 1001000000000\<rparr>,
             \<lparr>det_id = 1, val = 12, time = Timestamp 1002000000000\<rparr>],
            [], [(1, ''PMT-A''), (2, ''PMT-B'')])"
    by (simp add: load_defs)
  have h2: "(1, [\<lparr>det_id = 1, val = 10, time = Timestamp 1000000000000\<rparr>,
        \<lparr>det_id = 1, val = 12, time = Timestamp 1002000000000\<rparr>])
     \<in> set (groupby_det_id (frame_of Current
            ([\<lparr>det_id = 1, val = 10, time = Timestamp 1000000000000\<rparr>,
              \<lparr>det_id = 2, val = 5, time = Timestamp 1001000000000\<rparr>,
              \<lparr>det_id = 1, val = 12, time = Timestamp 1002000000000\<rparr>],
             [], [(1, ''PMT-A''), (2, ''PMT-B'')])))"
    by (simp add: groupby_det_id_def)
  from groups_keep_store_order [OF h1 h2] h1 h2 show ?thesis
    by (simp add: table_rows_def)
qed

text \<open>
  Claim C3, as the code has it. \<^verbatim>\<open>load_measurements\<close> has no test for an empty catalog:
  with an empty detector table it still executes both measurement queries.
\<close>

theorem load_measurements_empty_catalog_counterexample:
  "fst (load_measurements \<lparr>detector = [], current = [\<lparr>det_id = 3, val = 99, time = 1003\<rparr>],
             voltage = [\<lparr>det_id = 3, val = 1500, time = 1000\<rparr>]\<rparr>) =
     [SelectDetector, SelectMeasurements Current [], SelectMeasurements Voltage []]"
  by (simp add: load_defs)

text \<open>
  Claim C3, amended. If the detector table is empty, \<^verbatim>\<open>load_measurements\<close> executes the
  detector query and both measurement queries, each with an empty \<^verbatim>\<open>IN\<close> list (the
  interpolated text is the empty string), and returns two empty frames and the empty catalog.
\<close>

theorem load_measurements_empty_catalog:
  assumes "detector s = []"
  shows "load_measurements s =
           ([SelectDetector, SelectMeasurements Current [], SelectMeasurements Voltage []],
            Inr ([], [], [])) \<and>
         in_list_text (keys (dict_of (detector s))) = ''''"
  using assms by (simp add: load_defs in_list_text_def)

theorem load_measurements_empty_catalog_witness:
  "detector \<lparr>detector = [], current = [\<lparr>det_id = 3, val = 99, time = 1003\<rparr>],
             voltage = [\<lparr>det_id = 3, val = 1500, time = 1000\<rparr>]\<rparr> = [] \<and>
   load_measurements \<lparr>detector = [], current = [\<lparr>det_id = 3, val = 99, time = 1003\<rparr>],
             voltage = [\<lparr>det_id = 3, val = 1500, time = 1000\<rparr>]\<rparr> =
     ([SelectDetector, SelectMeasurements Current [], SelectMeasurements Voltage []],
      Inr ([], [], []))"
  using load_measurements_empty_catalog [of "\<lparr>detector = [], current = [\<lparr>det_id = 3, val = 99, time = 1003\<rparr>],
             voltage = [\<lparr>det_id = 3, val = 1500, time = 1000\<rparr>]\<rparr>"]
  by simp

section \<open>Properties of the shaping\<close>




text \<open>
  Claim C5. For every \<^verbatim>\<open>downsample\<close> \<open>n \<ge> 1\<close>, \<^verbatim>\<open>plot_all\<close> returns a figure whose
  traces, group by group in the order of \<^verbatim>\<open>groupby\<close>, have as time and value sequences
  exactly the samples of the group at the indices \<open>0, n, 2n, \<dots>\<close>.
\<close>

theorem plot_all_decimation:
  assumes "1 \<le> n"
  shows "\<exists>fig. plot_all cur vol det_map n = Inr fig \<and>
           series 1 fig = map (\<lambda>(k, g). columns (at_multiples (nat n) g)) (groupby_det_id cur) \<and>
           series 2 fig = map (\<lambda>(k, g). columns (at_multiples (nat n) g)) (groupby_det_id vol)"
  using assms by (simp add: plot_all_shown series_shown [unfolded One_nat_def] kept_at_multiples)

theorem plot_all_decimation_witness:
  "(1::int) \<le> 2 \<and>
   (\<exists>fig. plot_all
        [\<lparr>det_id = 1, val = 10, time = Timestamp 1000000000000\<rparr>,
         \<lparr>det_id = 1, val = 12, time = Timestamp 1002000000000\<rparr>,
         \<lparr>det_id = 2, val = 5, time = Timestamp 1001000000000\<rparr>]
        [] [(1, ''PMT-A''), (2, ''PMT-B'')] 2 = Inr fig \<and>
      series 1 fig = [([Timestamp 1000000000000], [10]), ([Timestamp 1001000000000], [5])])"
  using plot_all_decimation [of 2
        "[\<lparr>det_id = 1, val = 10, time = Timestamp 1000000000000\<rparr>,
         \<lparr>det_id = 1, val = 12, time = Timestamp 1002000000000\<rparr>,
         \<lparr>det_id = 2, val = 5, time = Timestamp 1001000000000\<rparr>]"
        "[]" "[(1, ''PMT-A''), (2, ''PMT-B'')]"]
  by (auto simp: groupby_det_id_def at_multiples_def columns_def)

text \<open>
  Claim C6. With \<^verbatim>\<open>downsample = 1\<close> the time and the value sequence of every trace are
  the time and the value column of its group, unchanged.
\<close>

theorem plot_all_stride_one:
  "\<exists>fig. plot_all cur vol det_map 1 = Inr fig \<and>
     series 1 fig = map (\<lambda>(k, g). (map time g, map val g)) (groupby_det_id cur) \<and>
     series 2 fig = map (\<lambda>(k, g). (map time g, map val g)) (groupby_det_id vol)"
  by (simp add: plot_all_shown series_shown [unfolded One_nat_def] kept_def columns_def)

text \<open>
  Claim C7, as the code has it. The name of a trace is not the label alone: the source
  puts the kind in front of it. In the scenario of the specification the series of
  identifier 1 is named \<open>Current PMT-A\<close>, and the series of identifier 3, which the catalog
  lacks, is named \<open>Current 3\<close>.
\<close>

theorem plot_all_label_counterexample:
  "plot_all [\<lparr>det_id = 1, val = 10, time = Timestamp 1000000000000\<rparr>,
             \<lparr>det_id = 1, val = 12, time = Timestamp 1002000000000\<rparr>,
             \<lparr>det_id = 3, val = 99, time = Timestamp 1003000000000\<rparr>] []
            [(1, ''PMT-A''), (2, ''PMT-B'')] 2 =
     Inr \<lparr>grid_rows = 2, grid_cols = 1, shared_xaxes = True, vertical_spacing = 1 / 10,
          subplot_titles = [''Current over Time'', ''Voltage over Time''],
          fig_data = [(\<lparr>trace_x = [Timestamp 1000000000000],
                        trace_y = [10], trace_mode = ''lines'',
                        trace_name = ''Current PMT-A''\<rparr>, 1, 1),
                      (\<lparr>trace_x = [Timestamp 1003000000000],
                        trace_y = [99], trace_mode = ''lines'',
                        trace_name = ''Current 3''\<rparr>, 1, 1)],
          layout_height = Some 800, title_text = Some ''Current and Voltage Measurements'',
          xaxis_title = Some ''Time''\<rparr> \<and>
   ''Current PMT-A'' \<noteq> ''PMT-A'' \<and> ''Current 3'' \<noteq> ''3''"
  by (simp add: plot_all_def groupby_det_id_def make_subplots_def decimate_def iloc_step_def
      scatter_def add_trace_def dict_get_def update_layout_def str_def digits.simps)

text \<open>
  Claim C7, amended. For every frame, catalog and \<^verbatim>\<open>downsample\<close>, \<^verbatim>\<open>plot_all\<close> returns
  a figure in which the trace of each identifier is named by the kind (\<open>Current\<close> or
  \<open>Voltage\<close>), a space, and the label: the catalog's name of the identifier, or the decimal
  string of the identifier when the catalog lacks it.
\<close>

theorem plot_all_trace_names:
  "\<exists>fig. plot_all cur vol det_map downsample = Inr fig \<and>
     names 1 fig = map (\<lambda>(k, g). ''Current '' @ label det_map k) (groupby_det_id cur) \<and>
     names 2 fig = map (\<lambda>(k, g). ''Voltage '' @ label det_map k) (groupby_det_id vol)"
  by (simp add: plot_all_shown names_shown [unfolded One_nat_def])

text \<open>
  Claim C9. Called with references to a current frame, a voltage frame and a catalog,
  \<^verbatim>\<open>plot_all\<close> returns the figure of the value-level model and leaves every object that
  existed before the call as it was, in particular the three objects of the caller.
\<close>

theorem plot_all_heap_inputs_unchanged:
  assumes "c < length h" "v < length h" "d < length h"
    and "h ! c = Frame cur" "h ! v = Frame vol" "h ! d = Dict det_map"
  shows "\<exists>fig h'. plot_all_heap c v d downsample h = Inr (fig, h') \<and>
           plot_all cur vol det_map downsample = Inr fig \<and>
           take (length h) h' = h \<and>
           h' ! c = Frame cur \<and> h' ! v = Frame vol \<and> h' ! d = Dict det_map"
proof -
  from plot_all_heap_shown [OF assms, of downsample]
  obtain h' where h': "plot_all_heap c v d downsample h = Inr (shown cur vol det_map downsample, h')"
    "take (length h) h' = h" by blast
  have "h' ! a = h ! a" if "a < length h" for a
    using that h'(2) by (metis nth_take)
  then show ?thesis using h' assms by (simp add: plot_all_shown)
qed

theorem plot_all_heap_inputs_unchanged_witness:
  "(0::nat) < length [Frame [\<lparr>det_id = 1, val = 10, time = Timestamp 1000000000000\<rparr>,
                              \<lparr>det_id = 1, val = 12, time = Timestamp 1002000000000\<rparr>],
                      Frame [], Dict [(1, ''PMT-A'')]] \<and>
   (\<exists>fig h'. plot_all_heap 0 1 2 2
        [Frame [\<lparr>det_id = 1, val = 10, time = Timestamp 1000000000000\<rparr>,
                \<lparr>det_id = 1, val = 12, time = Timestamp 1002000000000\<rparr>],
         Frame [], Dict [(1, ''PMT-A'')]] = Inr (fig, h') \<and>
      h' ! 0 = Frame [\<lparr>det_id = 1, val = 10, time = Timestamp 1000000000000\<rparr>,
                      \<lparr>det_id = 1, val = 12, time = Timestamp 1002000000000\<rparr>] \<and>
      h' ! 1 = Frame [] \<and> h' ! 2 = Dict [(1, ''PMT-A'')])"
  using plot_all_heap_inputs_unchanged [of 0
        "[Frame [\<lparr>det_id = 1, val = 10, time = Timestamp 1000000000000\<rparr>,
                \<lparr>det_id = 1, val = 12, time = Timestamp 1002000000000\<rparr>],
         Frame [], Dict [(1, ''PMT-A'')]]" 1 2
         "[\<lparr>det_id = 1, val = 10, time = Timestamp 1000000000000\<rparr>,
                \<lparr>det_id = 1, val = 12, time = Timestamp 1002000000000\<rparr>]" "[]" "[(1, ''PMT-A'')]" 2]
  by auto

text \<open>
  Claim C10. For every \<^verbatim>\<open>downsample\<close> of at most 1, zero and negative values included,
  \<^verbatim>\<open>plot_all\<close> raises nothing and every trace carries all samples of its group, in order:
  the slice is taken only under the guard \<^verbatim>\<open>downsample > 1\<close>.
\<close>

theorem plot_all_guard:
  assumes "downsample \<le> 1"
  shows "\<exists>fig. plot_all cur vol det_map downsample = Inr fig \<and>
           series 1 fig = map (\<lambda>(k, g). columns g) (groupby_det_id cur) \<and>
           series 2 fig = map (\<lambda>(k, g). columns g) (groupby_det_id vol)"
  using assms by (simp add: plot_all_shown series_shown [unfolded One_nat_def] kept_def)

theorem plot_all_guard_witness:
  "(0::int) \<le> 1 \<and>
   (\<exists>fig. plot_all
        [\<lparr>det_id = 1, val = 10, time = Timestamp 1000000000000\<rparr>,
         \<lparr>det_id = 1, val = 12, time = Timestamp 1002000000000\<rparr>,
         \<lparr>det_id = 2, val = 5, time = Timestamp 1001000000000\<rparr>]
        [] [(1, ''PMT-A''), (2, ''PMT-B'')] 0 = Inr fig \<and>
      series 1 fig = [([Timestamp 1000000000000, Timestamp 1002000000000], [10, 12]),
                      ([Timestamp 1001000000000], [5])])"
  using plot_all_guard [of 0
        "[\<lparr>det_id = 1, val = 10, time = Timestamp 1000000000000\<rparr>,
         \<lparr>det_id = 1, val = 12, time = Timestamp 1002000000000\<rparr>,
         \<lparr>det_id = 2, val = 5, time = Timestamp 1001000000000\<rparr>]"
        "[]" "[(1, ''PMT-A''), (2, ''PMT-B'')]"]
  by (auto simp: groupby_det_id_def columns_def)

end
